theory Spec2Isabelle
  imports Complex_Main "HOL-Library.Multiset"
begin

section \<open>Ch17.ipynb: entropy of labelled data and of a partition\<close>

text \<open>
  The notebook declares its language in its metadata: kernel \<^verbatim>\<open>python2\<close>, language
  version 2.7.11, and it has no \<^verbatim>\<open>from __future__ import division\<close>. Two things of
  Python 2 therefore shape the model:
  \<^item> \<^verbatim>\<open>/\<close> on two \<^verbatim>\<open>int\<close>s is floor division (an \<^verbatim>\<open>int\<close>), on a \<^verbatim>\<open>float\<close> and an
    \<^verbatim>\<open>int\<close> it is true division; both raise \<^verbatim>\<open>ZeroDivisionError\<close> on a zero divisor;
  \<^item> a name that is neither local to a function nor bound in the module's
    namespace (nor a builtin) raises \<^verbatim>\<open>NameError\<close> when it is evaluated.

  Python \<^verbatim>\<open>int\<close>s are modelled by \<^typ>\<open>int\<close>. Python \<^verbatim>\<open>float\<close>s are modelled by
  \<^typ>\<open>real\<close>: rounding is not modelled. Every exception is a value \<open>Inl e\<close> of the
  result type.
\<close>

subsection \<open>Exceptions, objects and the module namespace\<close>

datatype py_error =
    NameError string
  | ZeroDivisionError
  | ValueError
  | TypeError

text \<open>
  What a global name can be bound to, as far as \<^verbatim>\<open>entropy\<close> can tell: a sequence of
  numbers, or any other object (a module, a function, a list of tuples), on which
  iterating or negating an element raises \<^verbatim>\<open>TypeError\<close>.
\<close>

datatype pyobj =
    PyNumbers "real list"
  | PyOther

type_synonym globals = "string \<rightharpoonup> pyobj"

text \<open>
  Every name the cells of the notebook bind at module level, in the order of the
  cells: the imports, the two arrays of the plotting cell
  (\<^verbatim>\<open>xs = np.arange(0.05, 1.0, 0.05)\<close>, the 19 grid points 0.05, 0.10, ..., 0.95, and
  \<^verbatim>\<open>ys = -xs * np.log2(xs)\<close>), the four functions and the sample data. No cell binds
  \<^verbatim>\<open>class_probabilitiers\<close>, and it is no builtin of Python.
\<close>

definition notebook_globals :: globals where
  "notebook_globals = map_of
     [(''math'', PyOther), (''Counter'', PyOther), (''np'', PyOther), (''mpl'', PyOther),
      (''xs'', PyNumbers (map (\<lambda>k. real k * 5 / 100) [1 ..< 20])),
      (''ys'', PyNumbers (map (\<lambda>k. - (real k * 5 / 100) * log 2 (real k * 5 / 100)) [1 ..< 20])),
      (''entropy'', PyOther), (''class_probabilities'', PyOther),
      (''data_entropy'', PyOther), (''partition_entropy'', PyOther),
      (''inputs'', PyOther)]"

subsection \<open>entropy\<close>

text \<open>
  \<^verbatim>\<open>
  def entropy(class_probabilities):
      """Give a list of class probabilities, compute the entropy."""
      return sum(-p * math.log(p, 2)
                 for p in class_probabilitiers
                 if p) # ignore zero probabilities
  \<close>
  The generator iterates over \<^verbatim>\<open>class_probabilitiers\<close>, which is not the parameter
  \<^verbatim>\<open>class_probabilities\<close>: it is a free name, looked up in the module namespace when
  the generator expression is created. The parameter is never read.

  \<open>entropy_sum\<close> is the loop of \<^verbatim>\<open>sum\<close> over the generator: the accumulator starts
  at 0, an element that is false (equal to 0) is skipped, and \<^verbatim>\<open>math.log\<close> raises
  \<^verbatim>\<open>ValueError\<close> on a negative number.
\<close>

fun entropy_sum :: "real \<Rightarrow> real list \<Rightarrow> py_error + real" where
  "entropy_sum acc [] = Inr acc"
| "entropy_sum acc (p # ps) =
     (if p = 0 then entropy_sum acc ps
      else if p < 0 then Inl ValueError
      else entropy_sum (acc + - p * log 2 p) ps)"

definition entropy :: "globals \<Rightarrow> 'a \<Rightarrow> py_error + real" where
  "entropy g class_probabilities =
     (case g ''class_probabilitiers'' of
        None \<Rightarrow> Inl (NameError ''class_probabilitiers'')
      | Some PyOther \<Rightarrow> Inl TypeError
      | Some (PyNumbers ps) \<Rightarrow> entropy_sum 0 ps)"

subsection \<open>class_probabilities\<close>

text \<open>
  \<^verbatim>\<open>Counter(labels)\<close> counts by \<^verbatim>\<open>self[elem] = self.get(elem, 0) + 1\<close> for each
  element in turn. The counter is an association list here, a new key going to the
  end; the order in which Python 2 lists the values of a dict is decided by the hashes
  of the keys, so no theorem below depends on the order.
\<close>

fun counter_incr :: "'a \<Rightarrow> ('a \<times> int) list \<Rightarrow> ('a \<times> int) list" where
  "counter_incr elem [] = [(elem, 0 + 1)]"
| "counter_incr elem ((k, n) # c) =
     (if k = elem then (k, n + 1) # c else (k, n) # counter_incr elem c)"

definition Counter :: "'a list \<Rightarrow> ('a \<times> int) list" where
  "Counter iterable = fold counter_incr iterable []"

definition counter_values :: "('a \<times> int) list \<Rightarrow> int list" where
  "counter_values c = map snd c"

text \<open>\<^verbatim>\<open>a / b\<close> on two \<^verbatim>\<open>int\<close>s, in Python 2 without the \<^verbatim>\<open>division\<close> future import.\<close>

definition int_div :: "int \<Rightarrow> int \<Rightarrow> py_error + int" where
  "int_div a b = (if b = 0 then Inl ZeroDivisionError else Inr (a div b))"

text \<open>A list comprehension whose element expression can raise: the first error ends it.\<close>

fun comprehension :: "('a \<Rightarrow> py_error + 'b) \<Rightarrow> 'a list \<Rightarrow> py_error + 'b list" where
  "comprehension f [] = Inr []"
| "comprehension f (x # rest) =
     (case f x of
        Inl e \<Rightarrow> Inl e
      | Inr y \<Rightarrow> (case comprehension f rest of Inl e \<Rightarrow> Inl e | Inr out \<Rightarrow> Inr (y # out)))"

text \<open>
  \<^verbatim>\<open>
  def class_probabilities(labels):
      total_count = len(labels)
      return [count / total_count
             for count in Counter(labels).values()]
  \<close>
\<close>

definition class_probabilities :: "'a list \<Rightarrow> py_error + int list" where
  "class_probabilities labels =
     (let total_count = int (length labels)
      in comprehension (\<lambda>count. int_div count total_count) (counter_values (Counter labels)))"

subsection \<open>data_entropy\<close>

text \<open>
  \<^verbatim>\<open>
  def data_entropy(labeled_data):
      labels = [label for _, label in labeled_data]
      probabilities = class_probabilities(labels)
      return entropy(probabilities)
  \<close>
\<close>

definition data_entropy :: "globals \<Rightarrow> ('x \<times> 'l) list \<Rightarrow> py_error + real" where
  "data_entropy g labeled_data =
     (let labels = map snd labeled_data
      in case class_probabilities labels of
           Inl e \<Rightarrow> Inl e
         | Inr probabilities \<Rightarrow> entropy g probabilities)"

subsection \<open>partition_entropy\<close>

text \<open>
  \<^verbatim>\<open>
  def partition_entropy(subsets):
      total_count = sum(len(subset) for subset in subsets)
      return sum( data_entropy(subset) * len(subset) / total_count
                for subset in subsets )
  \<close>
  The value of \<^verbatim>\<open>data_entropy(subset)\<close> is a \<^verbatim>\<open>float\<close>, or the \<^verbatim>\<open>int\<close> 0 when \<^verbatim>\<open>sum\<close>
  added nothing. In the first case \<^verbatim>\<open>/\<close> is true division; in the second the dividend
  is 0 and floor division gives 0 as well. Both raise on \<^verbatim>\<open>total_count == 0\<close>.
\<close>

definition num_div :: "real \<Rightarrow> int \<Rightarrow> py_error + real" where
  "num_div a b = (if b = 0 then Inl ZeroDivisionError else Inr (a / real_of_int b))"

fun partition_sum :: "globals \<Rightarrow> int \<Rightarrow> real \<Rightarrow> ('x \<times> 'l) list list \<Rightarrow> py_error + real" where
  "partition_sum g total_count acc [] = Inr acc"
| "partition_sum g total_count acc (subset' # rest) =
     (case data_entropy g subset' of
        Inl e \<Rightarrow> Inl e
      | Inr h \<Rightarrow>
          (case num_div (h * real (length subset')) total_count of
             Inl e \<Rightarrow> Inl e
           | Inr term \<Rightarrow> partition_sum g total_count (acc + term) rest))"

definition partition_entropy :: "globals \<Rightarrow> ('x \<times> 'l) list list \<Rightarrow> py_error + real" where
  "partition_entropy g subsets =
     (let total_count = sum_list (map (\<lambda>subset'. int (length subset')) subsets)
      in partition_sum g total_count 0 subsets)"

subsection \<open>The sample data of the notebook\<close>

text \<open>
  The four records of the cell \<^verbatim>\<open>inputs = [...]\<close>, each a pair of an attribute dict
  (written as an association list, in the order of the literal) and a boolean label.
\<close>

type_synonym attributes = "(string \<times> string) list"

definition inputs :: "(attributes \<times> bool) list" where
  "inputs =
     [([(''level'', ''Senior''), (''lang'', ''Java''), (''tweets'', ''no''), (''phd'', ''no'')], False),
      ([(''level'', ''Senior''), (''lang'', ''Java''), (''tweets'', ''no''), (''phd'', ''yse'')], False),
      ([(''level'', ''Mid''), (''lang'', ''Python''), (''tweets'', ''no''), (''phd'', ''no'')], True),
      ([(''level'', ''Junior''), (''lang'', ''Python''), (''tweets'', ''no''), (''phd'', ''no'')], True)]"


section \<open>What the functions do\<close>

subsection \<open>entropy and the namespace\<close>

lemma notebook_unbound: "notebook_globals ''class_probabilitiers'' = None"
  by (simp add: notebook_globals_def)

lemma entropy_ignores_argument: "entropy g a = entropy g b"
  by (simp add: entropy_def)

lemma entropy_notebook: "entropy notebook_globals a = Inl (NameError ''class_probabilitiers'')"
  by (simp add: entropy_def notebook_unbound)

subsection \<open>class_probabilities under floor division\<close>

lemma comprehension_int_div:
  "comprehension (\<lambda>count. int_div count t) cs =
     (if cs = [] \<or> t \<noteq> 0 then Inr (map (\<lambda>count. count div t) cs)
      else Inl ZeroDivisionError)"
  by (induction cs) (auto simp: int_div_def)

lemma Counter_Nil: "Counter [] = []"
  by (simp add: Counter_def)

text \<open>
  The division never raises: with no label there is no count to divide, and with a
  label the divisor is not 0.
\<close>

lemma class_probabilities_floor:
  "class_probabilities labels =
     Inr (map (\<lambda>count. count div int (length labels)) (counter_values (Counter labels)))"
  by (cases labels)
    (simp_all add: class_probabilities_def comprehension_int_div Counter_Nil counter_values_def)

lemma counter_incr_keys: "fst ` set (counter_incr e c) = insert e (fst ` set c)"
  by (induction e c rule: counter_incr.induct) auto

lemma counter_incr_distinct:
  "distinct (map fst c) \<Longrightarrow> distinct (map fst (counter_incr e c))"
proof (induction e c rule: counter_incr.induct)
  case (1 elem)
  show ?case by simp
next
  case (2 elem k n c)
  then show ?case
    using counter_incr_keys [of elem c] by (auto simp: image_iff)
qed

lemma counter_incr_sum: "sum_list (map snd (counter_incr e c)) = sum_list (map snd c) + 1"
  by (induction e c rule: counter_incr.induct) auto

lemma counter_incr_pos:
  "\<forall>v\<in>snd ` set c. 0 < v \<Longrightarrow> \<forall>v\<in>snd ` set (counter_incr e c). 0 < v"
  by (induction e c rule: counter_incr.induct) auto

lemma fold_counter_incr:
  assumes "distinct (map fst c)" and "\<forall>v\<in>snd ` set c. 0 < v"
  shows "distinct (map fst (fold counter_incr ls c)) \<and>
         fst ` set (fold counter_incr ls c) = set ls \<union> fst ` set c \<and>
         sum_list (map snd (fold counter_incr ls c)) = sum_list (map snd c) + int (length ls) \<and>
         (\<forall>v\<in>snd ` set (fold counter_incr ls c). 0 < v)"
  using assms
proof (induction ls arbitrary: c)
  case Nil
  then show ?case by simp
next
  case (Cons l ls)
  have d: "distinct (map fst (counter_incr l c))"
    using Cons.prems(1) by (rule counter_incr_distinct)
  have p: "\<forall>v\<in>snd ` set (counter_incr l c). 0 < v"
    using Cons.prems(2) by (rule counter_incr_pos)
  show ?case
    using Cons.IH [OF d p] by (simp add: counter_incr_keys counter_incr_sum)
qed

text \<open>
  The counter has one key for each distinct label, its counts are positive and they
  add up to the number of labels.
\<close>

lemma Counter_facts:
  "distinct (map fst (Counter ls))"
  "fst ` set (Counter ls) = set ls"
  "sum_list (counter_values (Counter ls)) = int (length ls)"
  "\<forall>v\<in>set (counter_values (Counter ls)). 0 < v"
  using fold_counter_incr [of "[]" ls] by (simp_all add: Counter_def counter_values_def)

lemma Counter_length: "length (Counter ls) = card (set ls)"
proof -
  have "card (set (map fst (Counter ls))) = length (map fst (Counter ls))"
    using Counter_facts(1) by (rule distinct_card)
  then show ?thesis
    using Counter_facts(2) [of ls] by simp
qed

lemma sum_list_pos_int:
  fixes vs :: "int list"
  shows "\<forall>v\<in>set vs. 0 < v \<Longrightarrow> 0 \<le> sum_list vs \<and> (vs \<noteq> [] \<longrightarrow> 0 < sum_list vs)"
  by (induction vs) auto

lemma member_less_sum_list:
  fixes vs :: "int list"
  assumes pos: "\<forall>v\<in>set vs. 0 < v" and len: "2 \<le> length vs" and mem: "v \<in> set vs"
  shows "v < sum_list vs"
proof -
  obtain as bs where vs: "vs = as @ v # bs"
    using mem by (meson split_list)
  have "as @ bs \<noteq> []"
    using len vs by (cases as; cases bs) auto
  moreover have "\<forall>w\<in>set (as @ bs). 0 < w"
    using pos vs by auto
  ultimately have "0 < sum_list (as @ bs)"
    using sum_list_pos_int [of "as @ bs"] by blast
  then show ?thesis
    using vs by simp
qed

text \<open>
  All that floor division leaves of the proportions: one entry for each distinct
  label; the entry is 1 when every label is the same, and every entry is 0 as soon as
  two labels differ.
\<close>

lemma class_probabilities_entries:
  "class_probabilities labels =
     Inr (if card (set labels) = 1 then [1] else replicate (card (set labels)) 0)"
proof -
  let ?vs = "counter_values (Counter labels)"
  let ?n = "int (length labels)"
  have len: "length ?vs = card (set labels)"
    by (simp add: counter_values_def Counter_length)
  have pos: "\<forall>v\<in>set ?vs. 0 < v"
    by (rule Counter_facts(4))
  have total: "sum_list ?vs = ?n"
    by (rule Counter_facts(3))
  show ?thesis
  proof (cases "card (set labels) = 1")
    case True
    then obtain v where v: "?vs = [v]"
      using len by (cases ?vs) auto
    then have "v = ?n"
      using total by simp
    moreover have "0 < v"
      using pos v by simp
    ultimately show ?thesis
      using True v by (simp add: class_probabilities_floor)
  next
    case False
    have "v div ?n = 0" if "v \<in> set ?vs" for v
    proof (cases "2 \<le> length ?vs")
      case True
      then have "v < ?n"
        using member_less_sum_list [OF pos True that] total by simp
      moreover have "0 < v"
        using pos that by blast
      ultimately show ?thesis by simp
    next
      case False
      then have "?vs = []"
        using \<open>card (set labels) \<noteq> 1\<close> len by (cases ?vs) auto
      then show ?thesis
        using that by simp
    qed
    then have "map (\<lambda>count. count div ?n) ?vs = replicate (length ?vs) 0"
      by (simp add: map_replicate_const [symmetric] cong: map_cong)
    then show ?thesis
      using False len by (simp add: class_probabilities_floor)
  qed
qed

subsection \<open>data_entropy and partition_entropy\<close>

text \<open>
  \<open>class_probabilities\<close> always returns and \<open>entropy\<close> does not read what it is
  given, so the outcome of \<open>data_entropy\<close> is that of \<open>entropy\<close>, whatever the data.
\<close>

lemma data_entropy_entropy: "data_entropy g labeled_data = entropy g ()"
  by (simp add: data_entropy_def class_probabilities_floor entropy_def)

lemma partition_sum_outcome:
  "partition_sum g t acc ss =
     (if ss = [] then Inr acc
      else case entropy g () of
             Inl e \<Rightarrow> Inl e
           | Inr h \<Rightarrow> if t = 0 then Inl ZeroDivisionError
                     else Inr (acc + (\<Sum>s\<leftarrow>ss. h * real (length s) / real_of_int t)))"
proof (induction ss arbitrary: acc)
  case Nil
  show ?case by simp
next
  case (Cons s ss)
  show ?case
    by (auto simp: Cons.IH data_entropy_entropy num_div_def add.assoc split: sum.splits)
qed

lemma partition_entropy_outcome:
  "partition_entropy g ss =
     (if ss = [] then Inr 0
      else case entropy g () of
             Inl e \<Rightarrow> Inl e
           | Inr h \<Rightarrow>
               if (\<Sum>s\<leftarrow>ss. int (length s)) = 0 then Inl ZeroDivisionError
               else Inr (\<Sum>s\<leftarrow>ss. h * real (length s) / real_of_int (\<Sum>s\<leftarrow>ss. int (length s))))"
  by (auto simp: partition_entropy_def partition_sum_outcome Let_def split: sum.splits)

text \<open>In the namespace of the notebook every call with a subset ends in the \<^verbatim>\<open>NameError\<close>.\<close>

lemma partition_entropy_notebook:
  "ss \<noteq> [] \<Longrightarrow> partition_entropy notebook_globals ss = Inl (NameError ''class_probabilitiers'')"
  by (simp add: partition_entropy_outcome entropy_notebook)

text \<open>
  The outcome, a value or an exception, does not depend on the order of the subsets,
  in any namespace.
\<close>

lemma partition_entropy_outcome_perm:
  fixes ss ss' :: "('x \<times> 'l) list list"
  assumes m: "mset ss = mset ss'"
  shows "partition_entropy g ss = partition_entropy g ss'"
proof -
  have e: "(ss = []) = (ss' = [])"
    using m by (metis mset_zero_iff)
  have i: "sum_list (map f ss) = sum_list (map f ss')" for f :: "('x \<times> 'l) list \<Rightarrow> int"
    using m by (metis mset_map sum_mset_sum_list)
  have r: "sum_list (map f ss) = sum_list (map f ss')" for f :: "('x \<times> 'l) list \<Rightarrow> real"
    using m by (metis mset_map sum_mset_sum_list)
  show ?thesis
    by (cases "entropy g ()")
      (simp_all add: partition_entropy_outcome e i [of "\<lambda>s. int (length s)"] r)
qed

section \<open>The claims of the specification\<close>

text \<open>The definitions that evaluating a call at a concrete input unfolds.\<close>

lemmas eval_defs =
  partition_entropy_def data_entropy_def class_probabilities_def Counter_def
  counter_values_def int_div_def num_div_def entropy_def notebook_globals_def inputs_def

subsection \<open>entropy\<close>

text \<open>
  C1 says that \<open>entropy\<close> returns, for every sequence of probabilities, the sum of
  \<open>- p * log 2 p\<close> over its nonzero entries. The function as written does not read
  its parameter: on the probabilities \<open>[0.25, 0.75]\<close>, in the namespace of the
  notebook, the call raises \<^verbatim>\<open>NameError\<close> for the misspelt name
  \<^verbatim>\<open>class_probabilitiers\<close> and returns no number.
\<close>

theorem entropy_probabilities_NameError:
  "entropy notebook_globals [1 / 4, 3 / 4 :: real] = Inl (NameError ''class_probabilitiers'')"
  by (simp add: entropy_def notebook_globals_def)

text \<open>
  C5 says that \<open>entropy\<close> skips the entries equal to 0 and returns 0.0, without an
  error, on a vector with all its mass on one entry. On \<open>[1.0, 0.0, 0.0]\<close> the call
  raises the same \<^verbatim>\<open>NameError\<close> before any entry is looked at.
\<close>

theorem entropy_one_hot_NameError:
  "entropy notebook_globals [1, 0, 0 :: real] = Inl (NameError ''class_probabilitiers'')"
  by (simp add: entropy_def notebook_globals_def)

text \<open>
  C7 says that \<open>entropy [1.0]\<close> is 0.0 and \<open>entropy [0.5, 0.5]\<close> is 1.0. Both calls
  raise the \<^verbatim>\<open>NameError\<close>.
\<close>

theorem entropy_examples_NameError:
  "entropy notebook_globals [1 :: real] = Inl (NameError ''class_probabilitiers'') \<and>
   entropy notebook_globals [1 / 2, 1 / 2 :: real] = Inl (NameError ''class_probabilitiers'')"
  by (simp add: entropy_def notebook_globals_def)

subsection \<open>class_probabilities\<close>

text \<open>
  C2 says that \<open>class_probabilities\<close> fails on an empty sequence of labels. It does
  not: the call returns.
\<close>

theorem class_probabilities_empty_no_error:
  "\<not> isl (class_probabilities ([] :: string list))"
  by (simp add: class_probabilities_def Counter_def counter_values_def)

text \<open>
  C2, as the code has it: on an empty sequence of labels \<open>class_probabilities\<close>
  returns the empty sequence. The division by the total count is evaluated once for
  each count of the counter, so with no label it is not evaluated at all.
\<close>

theorem class_probabilities_empty_returns:
  "class_probabilities [] = Inr []"
  by (simp add: class_probabilities_def Counter_def counter_values_def)

text \<open>
  C8 says that \<open>class_probabilities ["a", "a", "b"]\<close> returns proportions that sum to
  1.0, with the values 2/3 and 1/3. Under the floor division of the notebook's Python 2
  the counts 2 and 1, divided by 3, both give 0: the call returns two zeros.
\<close>

theorem class_probabilities_aab_floor:
  "class_probabilities [''a'', ''a'', ''b''] = Inr [0, 0]"
  by (simp add: class_probabilities_def Counter_def counter_values_def int_div_def)

text \<open>
  C9 says that, for every non-empty sequence of labels, the entries of
  \<open>class_probabilities\<close> are greater than 0, at most 1, one for each distinct label,
  and sum to 1. On \<open>["a", "b"]\<close> there is one entry for each label, yet each is 0 and
  so is their sum (lemma \<open>class_probabilities_entries\<close> has every input).
\<close>

theorem class_probabilities_ab_floor:
  "class_probabilities [''a'', ''b''] = Inr [0, 0]"
  by (simp add: class_probabilities_def Counter_def counter_values_def int_div_def)

subsection \<open>partition_entropy\<close>

text \<open>
  C10: on an empty sequence of subsets \<open>partition_entropy\<close> returns 0 and raises
  nothing, in every namespace: the total count is 0, but the sum ranges over no subset
  and the division by the total count is never evaluated.
\<close>

theorem partition_entropy_no_subsets: "partition_entropy g [] = Inr 0"
  by (simp add: partition_entropy_def)

text \<open>
  C3 says that an empty subset among the subsets adds 0 to the weighted sum, is never
  passed to \<open>data_entropy\<close>, and leaves the result of \<open>partition_entropy\<close> what it is
  without it. On the sample data split by label with an empty subset in between
  (total count 4) no sum is returned: the call raises the \<^verbatim>\<open>NameError\<close> of \<open>entropy\<close>
  at the first subset, as does the call without the empty subset, and \<open>data_entropy\<close>
  on the empty subset raises it too.
\<close>

theorem partition_entropy_with_empty_subset_NameError:
  "partition_entropy notebook_globals [take 2 inputs, [], drop 2 inputs]
     = Inl (NameError ''class_probabilitiers'') \<and>
   partition_entropy notebook_globals [take 2 inputs, drop 2 inputs]
     = Inl (NameError ''class_probabilitiers'') \<and>
   data_entropy notebook_globals ([] :: (attributes \<times> bool) list)
     = Inl (NameError ''class_probabilitiers'')"
  by (simp add: eval_defs)

text \<open>
  C4 says that, on subsets with a total count above 0, \<open>partition_entropy\<close> returns
  the average of \<open>data_entropy\<close> over the subsets, weighted by their sizes. On the
  sample data split by label (two records labelled False, two labelled True) the
  first call of \<open>data_entropy\<close> reaches \<open>entropy\<close>, and \<open>partition_entropy\<close> raises its
  \<^verbatim>\<open>NameError\<close> instead of returning the average.
\<close>

theorem partition_entropy_split_NameError:
  "partition_entropy notebook_globals [take 2 inputs, drop 2 inputs]
     = Inl (NameError ''class_probabilitiers'')"
  by (simp add: eval_defs)

text \<open>
  C6 says that \<open>partition_entropy\<close> returns the same value on a sequence of subsets
  and on any reordering of it. On the sample data split after its first record, in
  either order of the two subsets, the call raises the \<^verbatim>\<open>NameError\<close>: no value is
  returned to compare (lemma \<open>partition_entropy_outcome_perm\<close> has that the outcome,
  exception included, is the same for both orders).
\<close>

theorem partition_entropy_reordered_NameError:
  "partition_entropy notebook_globals [take 1 inputs, drop 1 inputs]
     = Inl (NameError ''class_probabilitiers'') \<and>
   partition_entropy notebook_globals [drop 1 inputs, take 1 inputs]
     = Inl (NameError ''class_probabilitiers'')"
  by (simp add: eval_defs)

end
